theory Spec2Isabelle
  imports Main "HOL-Library.Sublist"
begin

section \<open>Python strings\<close>

text \<open>
  The two scripts work on Python \<^verbatim>\<open>str\<close> values with the built-in string methods and
  the \<^verbatim>\<open>re\<close> module. A string is a \<^typ>\<open>string\<close>; the model covers ASCII text, where
  \<^verbatim>\<open>str.upper\<close> keeps the length, \<^verbatim>\<open>\s\<close> and \<^verbatim>\<open>str.strip\<close> agree on the ten ASCII white
  space characters and \<^verbatim>\<open>\w\<close> is \<^verbatim>\<open>[A-Za-z0-9_]\<close>.
\<close>

abbreviation nl :: char where
  "nl \<equiv> CHR 0x0A"

definition is_space :: "char \<Rightarrow> bool" where
  "is_space c = (c \<in> set [CHR '' '', CHR 0x09, nl, CHR 0x0B, CHR 0x0C, CHR 0x0D,
                           CHR 0x1C, CHR 0x1D, CHR 0x1E, CHR 0x1F])"

definition is_word :: "char \<Rightarrow> bool" where
  "is_word c = (c \<in> set ''abcdefghijklmnopqrstuvwxyzABCDEFGHIJKLMNOPQRSTUVWXYZ0123456789_'')"

definition upper_char :: "char \<Rightarrow> char" where
  "upper_char c =
     (case map_of (zip ''abcdefghijklmnopqrstuvwxyz'' ''ABCDEFGHIJKLMNOPQRSTUVWXYZ'') c of
        Some u \<Rightarrow> u
      | None \<Rightarrow> c)"

definition upper :: "string \<Rightarrow> string" where
  "upper s = map upper_char s"

definition lstrip :: "string \<Rightarrow> string" where
  "lstrip s = dropWhile is_space s"

definition rstrip :: "string \<Rightarrow> string" where
  "rstrip s = rev (dropWhile is_space (rev s))"

definition strip :: "string \<Rightarrow> string" where
  "strip s = lstrip (rstrip s)"

text \<open>\<^verbatim>\<open>s.split(c)\<close> for a one-character separator: never the empty list.\<close>

fun str_split :: "char \<Rightarrow> string \<Rightarrow> string list" where
  "str_split c [] = [[]]"
| "str_split c (x # xs) =
     (if x = c then [] # str_split c xs
      else (case str_split c xs of [] \<Rightarrow> [[x]] | w # ws \<Rightarrow> (x # w) # ws))"

fun str_join :: "string \<Rightarrow> string list \<Rightarrow> string" where
  "str_join sep [] = []"
| "str_join sep [x] = x"
| "str_join sep (x # y # ys) = x @ sep @ str_join sep (y # ys)"

text \<open>\<^verbatim>\<open>s.split()\<close>: the maximal runs of characters that are not white space.\<close>

function split_ws :: "string \<Rightarrow> string list" where
  "split_ws s =
     (case dropWhile is_space s of
        [] \<Rightarrow> []
      | c # cs \<Rightarrow> (c # takeWhile (\<lambda>x. \<not> is_space x) cs) # split_ws (dropWhile (\<lambda>x. \<not> is_space x) cs))"
  by pat_completeness auto
termination
proof (relation "measure length")
  fix s :: string and c cs
  assume "dropWhile is_space s = c # cs"
  then have "length (c # cs) \<le> length s"
    by (metis length_dropWhile_le)
  moreover have "length (dropWhile (\<lambda>x. \<not> is_space x) cs) \<le> length cs"
    by (rule length_dropWhile_le)
  ultimately show "(dropWhile (\<lambda>x. \<not> is_space x) cs, s) \<in> measure length"
    by simp
qed simp

text \<open>\<^verbatim>\<open>s.find(sub)\<close>: the lowest index where \<^verbatim>\<open>sub\<close> starts, \<^verbatim>\<open>-1\<close> as \<^const>\<open>None\<close>.\<close>

fun str_find :: "string \<Rightarrow> string \<Rightarrow> nat option" where
  "str_find [] sub = (if sub = [] then Some 0 else None)"
| "str_find (c # cs) sub =
     (if prefix sub (c # cs) then Some 0 else map_option Suc (str_find cs sub))"

text \<open>\<^verbatim>\<open>sub in s\<close>.\<close>

definition contains :: "string \<Rightarrow> string \<Rightarrow> bool" where
  "contains s sub = (str_find s sub \<noteq> None)"

definition startswith :: "string \<Rightarrow> string \<Rightarrow> bool" where
  "startswith s p = prefix p s"

definition endswith :: "string \<Rightarrow> string \<Rightarrow> bool" where
  "endswith s p = suffix p s"

text \<open>\<^verbatim>\<open>s.replace(old, new)\<close> for a non-empty \<^verbatim>\<open>old\<close>, as every call of the scripts has it.\<close>

function str_replace :: "string \<Rightarrow> string \<Rightarrow> string \<Rightarrow> string" where
  "str_replace old new [] = []"
| "str_replace old new (c # cs) =
     (if old \<noteq> [] \<and> prefix old (c # cs) then new @ str_replace old new (drop (length old) (c # cs))
      else c # str_replace old new cs)"
  by pat_completeness auto
termination
  by (relation "measure (\<lambda>(old, new, s). length s)") (auto simp: neq_Nil_conv)

text \<open>\<^verbatim>\<open>s.count(c)\<close> for one character, and the slice \<^verbatim>\<open>s[i:j]\<close> (empty when \<^verbatim>\<open>j <= i\<close>).\<close>

definition str_count :: "string \<Rightarrow> char \<Rightarrow> nat" where
  "str_count s c = length (filter (\<lambda>x. x = c) s)"

definition slice :: "string \<Rightarrow> nat \<Rightarrow> nat \<Rightarrow> string" where
  "slice s i j = drop i (take j s)"

section \<open>Regular expressions\<close>

text \<open>
  The patterns of the scripts, matched the way \<^verbatim>\<open>re\<close> does it: by backtracking, the first
  alternative first, a greedy repetition longest first, a lazy one shortest first. A
  state is the groups captured so far, the text consumed since the start of the match
  (reversed) and the text still to read; \<^verbatim>\<open>matches\<close> lists, in the order backtracking
  would try them, the states in which a pattern can end.

  \<open>Rep p\<close> and \<open>LazyRep p\<close> repeat a one-character class, which is what every \<^verbatim>\<open>+\<close>, \<^verbatim>\<open>*\<close> and
  \<^verbatim>\<open>*?\<close> of the scripts but one applies to; \<open>Star r\<close> is the general greedy repetition
  (an iteration that consumes nothing ends it).
\<close>

datatype regex =
    Eps
  | Chr "char \<Rightarrow> bool"
  | Seq regex regex
  | Alt regex regex
  | Rep "char \<Rightarrow> bool"
  | LazyRep "char \<Rightarrow> bool"
  | Star regex
  | Group nat regex
  | WordB

type_synonym captures = "(nat \<times> string) list"

type_synonym mstate = "captures \<times> string \<times> string"

fun rep_results :: "(char \<Rightarrow> bool) \<Rightarrow> captures \<Rightarrow> string \<Rightarrow> string \<Rightarrow> mstate list" where
  "rep_results p caps b [] = [(caps, b, [])]"
| "rep_results p caps b (c # cs) =
     (if p c then rep_results p caps (c # b) cs @ [(caps, b, c # cs)] else [(caps, b, c # cs)])"

fun lazy_results :: "(char \<Rightarrow> bool) \<Rightarrow> captures \<Rightarrow> string \<Rightarrow> string \<Rightarrow> mstate list" where
  "lazy_results p caps b [] = [(caps, b, [])]"
| "lazy_results p caps b (c # cs) =
     (if p c then (caps, b, c # cs) # lazy_results p caps (c # b) cs else [(caps, b, c # cs)])"

text \<open>\<open>pv\<close> is the character before the start of the match, for \<^verbatim>\<open>\b\<close> there.\<close>

definition word_before :: "char option \<Rightarrow> string \<Rightarrow> bool" where
  "word_before pv b = (case b of [] \<Rightarrow> (case pv of None \<Rightarrow> False | Some c \<Rightarrow> is_word c)
                               | c # _ \<Rightarrow> is_word c)"

definition word_after :: "string \<Rightarrow> bool" where
  "word_after s = (case s of [] \<Rightarrow> False | c # _ \<Rightarrow> is_word c)"

function matches :: "char option \<Rightarrow> regex \<Rightarrow> mstate \<Rightarrow> mstate list" where
  "matches pv Eps st = [st]"
| "matches pv (Chr p) (caps, b, s) =
     (case s of [] \<Rightarrow> [] | c # cs \<Rightarrow> if p c then [(caps, c # b, cs)] else [])"
| "matches pv (Seq r1 r2) st = concat (map (matches pv r2) (matches pv r1 st))"
| "matches pv (Alt r1 r2) st = matches pv r1 st @ matches pv r2 st"
| "matches pv (Rep p) (caps, b, s) = rep_results p caps b s"
| "matches pv (LazyRep p) (caps, b, s) = lazy_results p caps b s"
| "matches pv (Star r) st =
     concat (map (\<lambda>st'. if length (snd (snd st')) < length (snd (snd st))
                         then matches pv (Star r) st' else [])
                 (matches pv r st)) @ [st]"
| "matches pv (Group n r) (caps, b, s) =
     map (\<lambda>(caps', b', s'). ((n, rev (take (length b' - length b) b')) # caps', b', s'))
         (matches pv r (caps, b, s))"
| "matches pv WordB (caps, b, s) =
     (if word_before pv b \<noteq> word_after s then [(caps, b, s)] else [])"
  by pat_completeness auto
termination
  by (relation "measures [\<lambda>(pv, r, st). size r, \<lambda>(pv, r, st). length (snd (snd st))]") auto

text \<open>The equation of \<open>Star\<close> has \<open>Star\<close> on its right-hand side again: it is unfolded by
  hand, not by the simplifier.\<close>

declare matches.simps(7) [simp del]

text \<open>
  A match object: where the match starts, its groups, the matched text and the text
  after it. \<^verbatim>\<open>m.group(n)\<close> is the last capture of group \<open>n\<close>.
\<close>

record re_match_obj =
  m_start :: nat
  m_groups :: captures
  m_text :: string
  m_rest :: string

definition group :: "re_match_obj \<Rightarrow> nat \<Rightarrow> string" where
  "group m n = (if n = 0 then m_text m else (case map_of (m_groups m) n of Some g \<Rightarrow> g | None \<Rightarrow> []))"

definition match_at :: "regex \<Rightarrow> char option \<Rightarrow> string \<Rightarrow> re_match_obj option" where
  "match_at r pv s =
     (case matches pv r ([], [], s) of
        [] \<Rightarrow> None
      | (caps, b, rest) # _ \<Rightarrow> Some \<lparr>m_start = 0, m_groups = caps, m_text = rev b, m_rest = rest\<rparr>)"

text \<open>\<^verbatim>\<open>re.match\<close> tries the start of the string only, \<^verbatim>\<open>re.search\<close> every position from the left.\<close>

definition re_match :: "regex \<Rightarrow> string \<Rightarrow> re_match_obj option" where
  "re_match r s = match_at r None s"

fun search_from :: "regex \<Rightarrow> char option \<Rightarrow> string \<Rightarrow> re_match_obj option" where
  "search_from r pv [] = match_at r pv []"
| "search_from r pv (c # cs) =
     (case match_at r pv (c # cs) of
        Some m \<Rightarrow> Some m
      | None \<Rightarrow> map_option (\<lambda>m. m\<lparr>m_start := Suc (m_start m)\<rparr>) (search_from r (Some c) cs))"

definition re_search :: "regex \<Rightarrow> string \<Rightarrow> re_match_obj option" where
  "re_search r s = search_from r None s"

text \<open>
  \<^verbatim>\<open>re.sub(pattern, repl, s)\<close> with a constant replacement: the matches are found from left
  to right, each search starting where the last match ended. After an empty match the
  next character is copied and the search goes on behind it.
\<close>

function sub_from :: "regex \<Rightarrow> string \<Rightarrow> char option \<Rightarrow> string \<Rightarrow> string" where
  "sub_from r repl pv s =
     (case search_from r pv s of
        None \<Rightarrow> s
      | Some m \<Rightarrow>
          if m_text m = [] then
            (case drop (m_start m) s of
               [] \<Rightarrow> take (m_start m) s @ repl
             | c # cs \<Rightarrow> take (m_start m) s @ repl @ c # sub_from r repl (Some c) cs)
          else if length (m_rest m) < length s then
            take (m_start m) s @ repl @ sub_from r repl (Some (last (m_text m))) (m_rest m)
          else take (m_start m) s @ repl @ m_rest m)"
  by pat_completeness auto
termination
proof (relation "measure (\<lambda>(r, repl, pv, s). length s)")
  fix r :: regex and repl :: string and pv :: "char option"
  fix s :: string and m :: re_match_obj and c cs
  assume "drop (m_start m) s = c # cs"
  then have "length (c # cs) \<le> length s"
    by (metis diff_le_self length_drop)
  then show "((r, repl, Some c, cs), (r, repl, pv, s)) \<in> measure (\<lambda>(r, repl, pv, s). length s)"
    by simp
qed simp_all

definition re_sub :: "regex \<Rightarrow> string \<Rightarrow> string \<Rightarrow> string" where
  "re_sub r repl s = sub_from r repl None s"

text \<open>Building blocks of the patterns; every pattern of the scripts is used with \<^verbatim>\<open>re.IGNORECASE\<close>
  but the block comment, which has no letters.\<close>

definition many1 :: "(char \<Rightarrow> bool) \<Rightarrow> regex" where
  "many1 p = Seq (Chr p) (Rep p)"

definition opt :: "regex \<Rightarrow> regex" where
  "opt r = Alt r Eps"

fun lit :: "string \<Rightarrow> regex" where
  "lit [] = Eps"
| "lit (c # cs) = Seq (Chr (\<lambda>x. upper_char x = upper_char c)) (lit cs)"

fun seqs :: "regex list \<Rightarrow> regex" where
  "seqs [] = Eps"
| "seqs (r # rs) = Seq r (seqs rs)"

section \<open>Script A: splitting the dump into statements\<close>

subsection \<open>\<^verbatim>\<open>strip_comments\<close>\<close>

text \<open>\<^verbatim>\<open>/\*.*?\*/\<close> with \<^verbatim>\<open>re.DOTALL\<close>.\<close>

definition block_comment_re :: regex where
  "block_comment_re =
     seqs [Chr (\<lambda>c. c = CHR ''/''), Chr (\<lambda>c. c = CHR ''*''), LazyRep (\<lambda>c. True),
           Chr (\<lambda>c. c = CHR ''*''), Chr (\<lambda>c. c = CHR ''/'')]"

text \<open>The body of the loop over the lines: what is appended to \<^verbatim>\<open>cleaned_lines\<close>.\<close>

definition clean_line :: "string \<Rightarrow> string" where
  "clean_line line =
     (if contains line ''--'' then
        (case str_find line ''--'' of
           Some comment_pos \<Rightarrow>
             (let before_comment = rstrip (take comment_pos line)
              in if before_comment \<noteq> [] then before_comment else [])
         | None \<Rightarrow> line)
      else line)"

definition strip_comments :: "string \<Rightarrow> string" where
  "strip_comments content =
     (let content' = re_sub block_comment_re [] content;
          lines = str_split nl content';
          cleaned_lines = map clean_line lines
      in str_join [nl] cleaned_lines)"

subsection \<open>\<^verbatim>\<open>extract_create_table_statements\<close>\<close>

text \<open>\<^verbatim>\<open>CREATE\s+TABLE\s+\w+(?:\.\w+)?\<close>, tried at the start of a line.\<close>

definition create_table_prefix :: "regex list" where
  "create_table_prefix = [lit ''CREATE'', many1 is_space, lit ''TABLE'', many1 is_space]"

definition create_table_line_re :: regex where
  "create_table_line_re =
     seqs (create_table_prefix @
           [many1 is_word, opt (seqs [Chr (\<lambda>c. c = CHR ''.''), many1 is_word])])"

definition opens_statement :: "string \<Rightarrow> bool" where
  "opens_statement line = (re_match create_table_line_re line \<noteq> None)"

definition paren_balance :: "string \<Rightarrow> int" where
  "paren_balance line = int (str_count line CHR ''('') - int (str_count line CHR '')'')"

text \<open>The variables of the loop, and one turn of it.\<close>

record seg_state =
  statements :: "string list"
  current_statement :: "string list"
  paren_count :: int
  in_create_table :: bool

definition seg_init :: seg_state where
  "seg_init = \<lparr>statements = [], current_statement = [], paren_count = 0, in_create_table = False\<rparr>"

definition seg_step :: "seg_state \<Rightarrow> string \<Rightarrow> seg_state" where
  "seg_step st raw =
     (let line = strip raw in
      if line = [] then st
      else if opens_statement line then
        st\<lparr>statements :=
              (if current_statement st \<noteq> [] \<and> in_create_table st
               then statements st @ [str_join [nl] (current_statement st)]
               else statements st),
           current_statement := [line],
           in_create_table := True,
           paren_count := paren_balance line\<rparr>
      else if in_create_table st then
        (let cur = current_statement st @ [line];
             pc = paren_count st + paren_balance line
         in if pc \<le> 0 \<and> endswith line '';''
            then st\<lparr>statements := statements st @ [str_join [nl] cur],
                    current_statement := [],
                    in_create_table := False,
                    paren_count := 0\<rparr>
            else st\<lparr>current_statement := cur, paren_count := pc\<rparr>)
      else st)"

definition seg_finish :: "seg_state \<Rightarrow> string list" where
  "seg_finish st =
     (if current_statement st \<noteq> [] \<and> in_create_table st
      then statements st @ [str_join [nl] (current_statement st)]
      else statements st)"

definition extract_create_table_statements :: "string \<Rightarrow> string list" where
  "extract_create_table_statements content =
     seg_finish (foldl seg_step seg_init (str_split nl content))"

subsection \<open>\<^verbatim>\<open>extract_schema_table_name\<close>\<close>

text \<open>\<^verbatim>\<open>CREATE\s+TABLE\s+(\w+)\.(\w+)\<close> and \<^verbatim>\<open>CREATE\s+TABLE\s+(\w+)\<close>, searched in the whole
  statement. The result \<^verbatim>\<open>(None, None)\<close> is \<^const>\<open>None\<close>.\<close>

definition schema_table_re :: regex where
  "schema_table_re =
     seqs (create_table_prefix @
           [Group 1 (many1 is_word), Chr (\<lambda>c. c = CHR ''.''), Group 2 (many1 is_word)])"

definition table_only_re :: regex where
  "table_only_re = seqs (create_table_prefix @ [Group 1 (many1 is_word)])"

definition extract_schema_table_name :: "string \<Rightarrow> (string \<times> string) option" where
  "extract_schema_table_name statement =
     (case re_search schema_table_re statement of
        Some m \<Rightarrow> Some (group m 1, group m 2)
      | None \<Rightarrow>
          (case re_search table_only_re statement of
             Some m \<Rightarrow> Some (''DEFAULT'', group m 1)
           | None \<Rightarrow> None))"

subsection \<open>\<^verbatim>\<open>process_input_file\<close>\<close>

text \<open>
  The file has been read: \<open>content\<close> is its text. \<open>utc_time\<close> is the clock's reading, as
  \<^verbatim>\<open>isoformat\<close> prints it. The result is what the function leaves behind: the files it
  wrote (path and text, in order), the manifest and the warnings it logged.
\<close>

record manifest_entry =
  me_schema :: string
  me_table :: string
  me_path :: string
  me_source_file :: string

datatype warning = No_Statements_Found | Could_Not_Extract

record extraction =
  files_written :: "(string \<times> string) list"
  manifest_data :: "manifest_entry list"
  warnings :: "warning list"

definition write_statement ::
  "string \<Rightarrow> string \<Rightarrow> string \<Rightarrow> extraction \<Rightarrow> string \<Rightarrow> extraction" where
  "write_statement output_dir source_file_path utc_time ex statement =
     (case extract_schema_table_name statement of
        None \<Rightarrow> ex\<lparr>warnings := warnings ex @ [Could_Not_Extract]\<rparr>
      | Some (schema, table) \<Rightarrow>
          if schema = [] \<or> table = [] then ex\<lparr>warnings := warnings ex @ [Could_Not_Extract]\<rparr>
          else
            (let output_filename = schema @ ''__'' @ table @ ''.sql'';
                 output_path = output_dir @ ''/'' @ output_filename;
                 header = ''-- Source file: '' @ source_file_path @ [nl] @
                          ''-- Extracted: '' @ utc_time @ [nl, nl]
             in ex\<lparr>files_written := files_written ex @ [(output_path, header @ statement)],
                   manifest_data := manifest_data ex @
                     [\<lparr>me_schema = schema, me_table = table, me_path = output_path,
                       me_source_file = source_file_path\<rparr>]\<rparr>))"

definition process_input_file ::
  "string \<Rightarrow> string \<Rightarrow> manifest_entry list \<Rightarrow> string \<Rightarrow> string \<Rightarrow> extraction" where
  "process_input_file content output_dir manifest source_file_path utc_time =
     (let cleaned_content = strip_comments content;
          stmts = extract_create_table_statements cleaned_content;
          ex = \<lparr>files_written = [], manifest_data = manifest, warnings = []\<rparr>
      in if stmts = [] then ex\<lparr>warnings := [No_Statements_Found]\<rparr>
         else foldl (write_statement output_dir source_file_path utc_time) ex stmts)"

section \<open>Script B: converting one statement\<close>

subsection \<open>\<^verbatim>\<open>log_issue\<close>\<close>

text \<open>
  The issues file is the list of the entries appended to it; \<^verbatim>\<open>log_issue\<close> appends one,
  its snippet cut to 80 characters, and \<open>issue_line\<close> is the line written for it.
\<close>

record issue_entry =
  ie_table :: string
  ie_column :: string
  ie_issue :: string
  ie_snippet :: string

definition log_issue ::
  "issue_entry list \<Rightarrow> string \<Rightarrow> string \<Rightarrow> string \<Rightarrow> string \<Rightarrow> issue_entry list" where
  "log_issue issues_file table_name column_section issue snippet =
     issues_file @
       [\<lparr>ie_table = table_name, ie_column = column_section, ie_issue = issue,
         ie_snippet = (if length snippet > 80 then take 80 snippet else snippet)\<rparr>]"

definition issue_line :: "issue_entry \<Rightarrow> string" where
  "issue_line e =
     ie_table e @ '' | '' @ ie_column e @ '' | '' @ ie_issue e @ '' | '' @ ie_snippet e @ [nl]"

subsection \<open>\<^verbatim>\<open>convert_data_type\<close>\<close>

text \<open>The first two steps: the type in upper case without white space around it, and
  without the clause \<^verbatim>\<open>FOR SBCS DATA\<close>.\<close>

definition normalized_type :: "string \<Rightarrow> string" where
  "normalized_type db2_type0 =
     (let db2_type = upper (strip db2_type0)
      in if contains db2_type ''FOR SBCS DATA''
         then strip (str_replace ''FOR SBCS DATA'' [] db2_type)
         else db2_type)"

definition convert_data_type ::
  "string \<Rightarrow> issue_entry list \<Rightarrow> string \<Rightarrow> string \<Rightarrow> string \<times> issue_entry list" where
  "convert_data_type db2_type0 issues_file table_name column_name =
     (let db2_type = normalized_type db2_type0
      in if contains db2_type ''FOR BIT DATA'' then
           (''BINARY'', log_issue issues_file table_name column_name
                          ''mapped to BINARY from FOR BIT DATA'' db2_type)
         else if startswith db2_type ''DECIMAL'' \<or> startswith db2_type ''NUMERIC'' then
           (str_replace ''NUMERIC'' ''NUMBER'' (str_replace ''DECIMAL'' ''NUMBER'' db2_type),
            issues_file)
         else if db2_type \<in> set [''SMALLINT'', ''INTEGER'', ''BIGINT''] then
           (db2_type, issues_file)
         else if db2_type \<in> set [''REAL'', ''DOUBLE'', ''DECFLOAT''] then
           (''FLOAT'', issues_file)
         else if startswith db2_type ''CHAR'' \<or> startswith db2_type ''VARCHAR'' then
           (db2_type, issues_file)
         else if startswith db2_type ''GRAPHIC'' \<or> startswith db2_type ''VARGRAPHIC'' then
           (str_replace ''VARGRAPHIC'' ''VARCHAR'' (str_replace ''GRAPHIC'' ''VARCHAR'' db2_type),
            log_issue issues_file table_name column_name
              ''mapped (VAR)GRAPHIC to VARCHAR'' db2_type)
         else if startswith db2_type ''CLOB'' then
           (''VARCHAR'', log_issue issues_file table_name column_name
                           ''CLOB mapped to VARCHAR (possible size loss)'' db2_type)
         else if startswith db2_type ''BLOB'' then (''BINARY'', issues_file)
         else if db2_type = ''XML'' then
           (''VARIANT'', log_issue issues_file table_name column_name
                           ''XML mapped to VARIANT'' db2_type)
         else if db2_type = ''DATE'' then (''DATE'', issues_file)
         else if db2_type = ''TIME'' then (''TIME'', issues_file)
         else if db2_type = ''TIMESTAMP WITH TIME ZONE'' then (''TIMESTAMP_TZ'', issues_file)
         else if db2_type = ''TIMESTAMP'' then (''TIMESTAMP_NTZ'', issues_file)
         else (db2_type, issues_file))"

subsection \<open>\<^verbatim>\<open>convert_default_value\<close>\<close>

text \<open>\<^verbatim>\<open>\bCURRENT\s+TIMESTAMP\b\<close> and its two siblings, and \<^verbatim>\<open>\bUSER\b\<close>.\<close>

definition current_re :: "string \<Rightarrow> regex" where
  "current_re w = seqs [WordB, lit ''CURRENT'', many1 is_space, lit w, WordB]"

definition user_re :: regex where
  "user_re = seqs [WordB, lit ''USER'', WordB]"

definition convert_default_value ::
  "string \<Rightarrow> issue_entry list \<Rightarrow> string \<Rightarrow> string \<Rightarrow> string \<times> issue_entry list" where
  "convert_default_value default_expr0 issues_file table_name column_name =
     (if default_expr0 = [] then ([], issues_file)
      else
        (let default_expr1 = strip default_expr0 in
         if upper default_expr1 = ''WITH DEFAULT'' then
           ([], log_issue issues_file table_name column_name
                  ''ambiguous default removed'' ''WITH DEFAULT'')
         else
           (let default_expr2 = (if startswith (upper default_expr1) ''WITH DEFAULT ''
                                 then drop 13 default_expr1 else default_expr1);
                default_expr3 = re_sub (current_re ''TIMESTAMP'') ''CURRENT_TIMESTAMP'' default_expr2;
                default_expr4 = re_sub (current_re ''DATE'') ''CURRENT_DATE'' default_expr3;
                default_expr5 = re_sub (current_re ''TIME'') ''CURRENT_TIME'' default_expr4
            in if re_search user_re default_expr5 \<noteq> None then
                 (''DEFAULT '' @ re_sub user_re ''CURRENT_USER'' default_expr5,
                  log_issue issues_file table_name column_name
                    ''USER converted to CURRENT_USER'' default_expr5)
               else (''DEFAULT '' @ default_expr5, issues_file))))"

subsection \<open>\<^verbatim>\<open>parse_column_definition\<close>\<close>

definition type_end_keywords :: "string list" where
  "type_end_keywords =
     [''NOT NULL'', ''WITH DEFAULT'', ''NULL'', ''CONSTRAINT'', ''PRIMARY KEY'', ''UNIQUE'', ''CHECK'']"

text \<open>The loop over the keywords, from \<^verbatim>\<open>type_end_pos = len(column_def)\<close>.\<close>

definition type_end_pos :: "string \<Rightarrow> nat" where
  "type_end_pos column_def =
     foldl (\<lambda>tep keyword.
              case str_find (upper column_def) keyword of
                Some pos \<Rightarrow> if pos < tep then pos else tep
              | None \<Rightarrow> tep)
           (length column_def) type_end_keywords"

text \<open>\<^verbatim>\<open>parts[0]\<close>; the caller has made sure that \<^verbatim>\<open>parts\<close> is not empty.\<close>

definition column_name_of :: "string \<Rightarrow> string" where
  "column_name_of column_def = hd (split_ws column_def)"

definition data_type_part :: "string \<Rightarrow> string" where
  "data_type_part column_def =
     strip (slice column_def (length (column_name_of column_def)) (type_end_pos column_def))"

definition remaining_part :: "string \<Rightarrow> string" where
  "remaining_part column_def = strip (drop (type_end_pos column_def) column_def)"

text \<open>\<^verbatim>\<open>WITH\s+DEFAULT\s+([^,\s]+(?:\s+[^,\s]+)*)\<close>.\<close>

definition default_token :: "char \<Rightarrow> bool" where
  "default_token c = (c \<noteq> CHR '','' \<and> \<not> is_space c)"

definition with_default_re :: regex where
  "with_default_re =
     seqs [lit ''WITH'', many1 is_space, lit ''DEFAULT'', many1 is_space,
           Group 1 (Seq (many1 default_token)
                        (Star (Seq (many1 is_space) (many1 default_token))))]"

definition parse_column_definition ::
  "string \<Rightarrow> issue_entry list \<Rightarrow> string \<Rightarrow> string \<times> issue_entry list" where
  "parse_column_definition column_def0 issues_file table_name =
     (let column_def = strip column_def0 in
      if column_def = [] then ([], issues_file)
      else if split_ws column_def = [] then (column_def, issues_file)
      else
        (let column_name = column_name_of column_def;
             (snowflake_type, issues1) =
                convert_data_type (data_type_part column_def) issues_file table_name column_name;
             rest = upper (remaining_part column_def);
             not_null = contains rest ''NOT NULL'';
             null_attr = (contains rest ''NULL'' \<and> \<not> contains rest ''NOT NULL'');
             (default_value, issues2) =
                (case re_search with_default_re (remaining_part column_def) of
                   Some default_match \<Rightarrow>
                     convert_default_value (group default_match 0) issues1 table_name column_name
                 | None \<Rightarrow> ([], issues1));
             result_parts =
                [column_name, snowflake_type]
                @ (if not_null then [''NOT NULL''] else if null_attr then [''NULL''] else [])
                @ (if default_value \<noteq> [] then [default_value] else [])
         in (str_join '' '' result_parts, issues2)))"

subsection \<open>\<^verbatim>\<open>extract_primary_keys\<close>\<close>

text \<open>\<^verbatim>\<open>(\w+)\s+[^,\n]+\s+PRIMARY\s+KEY\<close> and \<^verbatim>\<open>PRIMARY\s+KEY\s*\(([^)]+)\)\<close>.\<close>

definition inline_pk_re :: regex where
  "inline_pk_re =
     seqs [Group 1 (many1 is_word), many1 is_space,
           many1 (\<lambda>c. c \<noteq> CHR '','' \<and> c \<noteq> nl), many1 is_space,
           lit ''PRIMARY'', many1 is_space, lit ''KEY'']"

definition table_pk_re :: regex where
  "table_pk_re =
     seqs [lit ''PRIMARY'', many1 is_space, lit ''KEY'', Rep is_space,
           Chr (\<lambda>c. c = CHR ''(''), Group 1 (many1 (\<lambda>c. c \<noteq> CHR '')'')), Chr (\<lambda>c. c = CHR '')'')]"

definition extract_primary_keys :: "string \<Rightarrow> string list" where
  "extract_primary_keys statement =
     (case re_search inline_pk_re statement of
        Some inline_pk_match \<Rightarrow> [group inline_pk_match 1]
      | None \<Rightarrow>
          (case re_search table_pk_re statement of
             Some pk_match \<Rightarrow> map strip (str_split CHR '','' (group pk_match 1))
           | None \<Rightarrow> []))"

subsection \<open>\<^verbatim>\<open>convert_db2_to_snowflake\<close>\<close>





subsection \<open>\<^verbatim>\<open>process_table_file\<close>\<close>




section \<open>The statements of the scenarios\<close>




text \<open>A statement without schema whose column default is a string that reads like the
  opening of another statement, and a statement with an inline key on a \<^verbatim>\<open>DECIMAL(18,2)\<close>
  column next to a key clause of the table.\<close>

definition widgets_statement :: string where
  "widgets_statement = str_join [nl]
     [''CREATE TABLE WIDGETS ('',
      ''  NOTE VARCHAR(40) WITH DEFAULT '' @ [CHR 0x27] @ ''CREATE TABLE A.B'' @ [CHR 0x27],
      '');'']"

definition two_keys_statement :: string where
  "two_keys_statement = str_join [nl]
     [''CREATE TABLE T ('',
      ''  AMT DECIMAL(18,2) NOT NULL PRIMARY KEY,'',
      ''  X INTEGER,'',
      ''  PRIMARY KEY (AMT, X)'',
      '');'']"

section \<open>Well-formed input\<close>






definition commented_text :: string where
  "commented_text = str_join [nl]
     [''/* dump of'', ''   the schema */ CREATE TABLE T ( -- the table'', ''  ID INTEGER /* key */'', ''-- done'', '');'']"

section \<open>Entries of one table in the issues file\<close>



section \<open>Facts about the string functions\<close>

lemma str_split_not_Nil: "str_split c s \<noteq> []"
  by (induction s) (auto split: list.splits)

lemma str_split_no_sep: "l \<in> set (str_split c s) \<Longrightarrow> c \<notin> set l"
  by (induction s arbitrary: l) (auto split: list.splits if_splits)

lemma str_split_plain: "c \<notin> set x \<Longrightarrow> str_split c x = [x]"
  by (induction x) auto

lemma str_split_append_sep:
  "c \<notin> set x \<Longrightarrow> str_split c (x @ c # rest) = x # str_split c rest"
  by (induction x) auto

lemma str_split_join:
  "ls \<noteq> [] \<Longrightarrow> (\<And>l. l \<in> set ls \<Longrightarrow> c \<notin> set l) \<Longrightarrow> str_split c (str_join [c] ls) = ls"
proof (induction "[c]" ls rule: str_join.induct)
  case 1
  then show ?case by simp
next
  case (2 x)
  then show ?case by (simp add: str_split_plain)
next
  case (3 x y ys)
  then show ?case by (simp add: str_split_append_sep)
qed

lemma str_join_split: "str_join [c] (str_split c s) = s"
proof (induction s)
  case Nil
  then show ?case by simp
next
  case (Cons x xs)
  then show ?case
    by (cases "str_split c xs"; cases "tl (str_split c xs)") (auto simp: str_split_not_Nil)
qed


lemma rstrip_prefix: "prefix (rstrip s) s"
proof -
  have "suffix (dropWhile is_space (rev s)) (rev s)"
    by (rule suffix_dropWhile)
  then show ?thesis
    by (simp add: rstrip_def suffix_to_prefix)
qed

lemma lstrip_idem: "lstrip (lstrip s) = lstrip s"
  by (simp add: lstrip_def dropWhile_idem)

lemma rstrip_idem: "rstrip (rstrip s) = rstrip s"
  by (simp add: rstrip_def dropWhile_idem)







section \<open>Scenario 1\<close>









section \<open>The bare placeholder default\<close>

text \<open>Called with the bare keyword, \<^verbatim>\<open>convert_default_value\<close> drops the default and logs it.\<close>

lemma bare_default_logged_when_passed:
  "convert_default_value ''WITH DEFAULT'' [] ''APP.ACCOUNT'' ''CODE''
     = ([], [\<lparr>ie_table = ''APP.ACCOUNT'', ie_column = ''CODE'',
               ie_issue = ''ambiguous default removed'', ie_snippet = ''WITH DEFAULT''\<rparr>])"
  by code_simp

text \<open>
  C2. A column whose default is the bare keyword \<^verbatim>\<open>WITH DEFAULT\<close> loses its default and
  should leave exactly one entry on the ambiguous default in the issues file. For
  \<^verbatim>\<open>CODE CHAR(3) WITH DEFAULT\<close> the column parser drops the default and logs nothing:
  its pattern asks for a value behind the keyword, so the bare keyword is never handed
  to \<^verbatim>\<open>convert_default_value\<close>.
\<close>

theorem bare_default_not_logged:
  "parse_column_definition ''CODE CHAR(3) WITH DEFAULT'' [] ''APP.ACCOUNT'' = (''CODE CHAR(3)'', [])
   \<and> re_search with_default_re (remaining_part ''CODE CHAR(3) WITH DEFAULT'') = None"
  by code_simp

section \<open>Primary keys\<close>

text \<open>
  C5. With an inline marker and a key clause of the table in one statement, the key
  should be the column of the inline marker. For \<^verbatim>\<open>AMT DECIMAL(18,2) NOT NULL PRIMARY KEY\<close>
  the inline pattern cannot cross the comma of the type and captures the word \<^verbatim>\<open>NOT\<close>.
\<close>

theorem inline_key_of_decimal_column:
  "extract_primary_keys two_keys_statement = [''NOT'']"
  by code_simp

section \<open>Statements without schema\<close>

lemma widgets_is_one_statement:
  "extract_create_table_statements (strip_comments widgets_statement)
     = [str_join [nl] (map strip (str_split nl widgets_statement))]"
  by code_simp

text \<open>
  C6. A statement that opens with \<^verbatim>\<open>CREATE TABLE WIDGETS\<close> should get the schema \<^verbatim>\<open>DEFAULT\<close>
  and the file \<^verbatim>\<open>DEFAULT__WIDGETS.sql\<close>. The two patterns are searched in the whole
  statement, the one with a schema first: a default value that reads \<^verbatim>\<open>CREATE TABLE A.B\<close>
  names the statement \<^verbatim>\<open>A.B\<close> and its file \<^verbatim>\<open>A__B.sql\<close>.
\<close>

theorem widgets_named_after_default_text:
  "map extract_schema_table_name (extract_create_table_statements (strip_comments widgets_statement))
     = [Some (''A'', ''B'')]
   \<and> map fst (files_written (process_input_file widgets_statement ''out'' [] ''data/input/w.sql'' ''t''))
     = [''out/A__B.sql'']"
  by code_simp

section \<open>Type mapping\<close>

text \<open>
  C7. The type mapping is a function of the type string, the table and the column
  alone: two runs on the same three, whatever the issues file holds at the start of
  each, return the same type and append the same entries to the file, at most one.
\<close>

theorem convert_data_type_deterministic:
  "fst (convert_data_type db2_type issues1 table_name column_name)
     = fst (convert_data_type db2_type issues2 table_name column_name)
   \<and> (\<exists>new. length new \<le> 1
         \<and> snd (convert_data_type db2_type issues1 table_name column_name) = issues1 @ new
         \<and> snd (convert_data_type db2_type issues2 table_name column_name) = issues2 @ new)"
  by (simp add: convert_data_type_def log_issue_def Let_def)

section \<open>Segmentation\<close>









section \<open>Comment stripping\<close>

lemma str_find_take:
  "str_find s sub = Some p \<Longrightarrow> sub \<noteq> [] \<Longrightarrow> str_find (take p s) sub = None"
proof (induction s arbitrary: p)
  case Nil
  then show ?case by (simp split: if_splits)
next
  case (Cons c cs)
  show ?case
  proof (cases "prefix sub (c # cs)")
    case True
    with Cons.prems show ?thesis by simp
  next
    case False
    with Cons.prems obtain p' where p: "p = Suc p'" and f: "str_find cs sub = Some p'"
      by auto
    have "\<not> prefix sub (c # take p' cs)"
      using False by (metis prefix_order.trans take_is_prefix take_Suc_Cons)
    with Cons.IH[OF f Cons.prems(2)] p show ?thesis by simp
  qed
qed

lemma str_find_prefix_None:
  "str_find s sub = None \<Longrightarrow> sub \<noteq> [] \<Longrightarrow> prefix s' s \<Longrightarrow> str_find s' sub = None"
proof (induction s' arbitrary: s)
  case Nil
  then show ?case by simp
next
  case (Cons c cs')
  from Cons.prems(3) obtain cs where s: "s = c # cs" and pre: "prefix cs' cs"
    by (cases s) auto
  from Cons.prems(1) s have np: "\<not> prefix sub (c # cs)" and f: "str_find cs sub = None"
    by (auto split: if_splits)
  from np pre have "\<not> prefix sub (c # cs')"
    by (metis Cons_prefix_Cons prefix_order.trans)
  with Cons.IH[OF f Cons.prems(2) pre] show ?case by simp
qed

lemma clean_line_no_comment: "\<not> contains (clean_line line) ''--''"
proof (cases "str_find line ''--''")
  case None
  then show ?thesis by (simp add: clean_line_def contains_def)
next
  case (Some p)
  then have "str_find (take p line) ''--'' = None"
    by (rule str_find_take) simp
  then have "str_find (rstrip (take p line)) ''--'' = None"
    by (rule str_find_prefix_None) (simp_all add: rstrip_prefix)
  with Some show ?thesis
    by (simp add: clean_line_def contains_def Let_def)
qed

lemma clean_line_idem: "clean_line (clean_line line) = clean_line line"
  using clean_line_no_comment[of line] by (simp add: clean_line_def[of "clean_line line"])

lemma set_clean_line: "set (clean_line line) \<subseteq> set line"
proof -
  have "set (rstrip (take p line)) \<subseteq> set line" for p
    using rstrip_prefix[of "take p line"] by (meson set_mono_prefix set_take_subset subset_trans)
  then show ?thesis
    by (auto simp: clean_line_def Let_def split: option.splits)
qed

lemma sub_from_no_match: "search_from r pv s = None \<Longrightarrow> sub_from r repl pv s = s"
  by (subst sub_from.simps) simp

text \<open>
  C3. Stripping the comments twice gives the same text as stripping them once, whenever
  the text stripped once holds no block comment. (Taking a comment out can join the
  text around it to a new one, as in \<^verbatim>\<open>//**/**/\<close>, which a second pass takes out.)
\<close>

theorem strip_comments_idempotent_without_new_comment:
  assumes "re_search block_comment_re (strip_comments content) = None"
  shows "strip_comments (strip_comments content) = strip_comments content"
proof -
  define cleaned where
    "cleaned = map clean_line (str_split nl (re_sub block_comment_re [] content))"
  have once: "strip_comments content = str_join [nl] cleaned"
    by (simp add: strip_comments_def cleaned_def Let_def)
  have "re_sub block_comment_re [] (strip_comments content) = strip_comments content"
    using assms by (simp add: re_sub_def re_search_def sub_from_no_match)
  moreover have "str_split nl (str_join [nl] cleaned) = cleaned"
  proof (rule str_split_join)
    show "cleaned \<noteq> []"
      by (simp add: cleaned_def str_split_not_Nil)
    show "nl \<notin> set l" if "l \<in> set cleaned" for l
      using that set_clean_line str_split_no_sep[of _ nl] by (fastforce simp: cleaned_def)
  qed
  moreover have "map clean_line cleaned = cleaned"
    by (simp add: cleaned_def clean_line_idem)
  ultimately show ?thesis
    unfolding once by (simp add: strip_comments_def[of "str_join [nl] cleaned"] Let_def)
qed

theorem strip_comments_idempotent_witness:
  "re_search block_comment_re (strip_comments commented_text) = None
   \<and> strip_comments commented_text = str_join [nl] ['' CREATE TABLE T ('', ''  ID INTEGER '', '''', '');'']
   \<and> strip_comments (strip_comments commented_text) = strip_comments commented_text"
proof -
  have clean: "re_search block_comment_re (strip_comments commented_text) = None"
    by code_simp
  have "strip_comments commented_text = str_join [nl] ['' CREATE TABLE T ('', ''  ID INTEGER '', '''', '');'']"
    by code_simp
  with strip_comments_idempotent_without_new_comment[OF clean] clean show ?thesis by simp
qed

theorem strip_comments_twice_counterexample:
  "strip_comments (strip_comments ''//**/**/'') \<noteq> strip_comments ''//**/**/''"
  by code_simp

lemma strip_comments_joins_a_comment:
  "strip_comments ''//**/**/'' = ''/**/'' \<and> strip_comments ''/**/'' = []"
  by code_simp

section \<open>Column names that hold a keyword\<close>











section \<open>The table name of the converted file\<close>











end
